theory Spec2Isabelle
  imports Main
begin

section \<open>The AI-proxy route of MindVault\<close>

text \<open>
  Source: \<^verbatim>\<open>src/unnamed/part_000\<close>.
  The route handler \<open>POST\<close> reads a JSON payload, builds a prompt, sends it to the
  generative-AI provider (falling over to the next model on a 404) and shapes the reply.
  Values are taken at their declared TypeScript types (\<open>GeminiRequest\<close>, and the type the
  provider's reply is cast to); the \<open>action\<close> field is kept as an arbitrary string, since
  the cast from \<open>request.json()\<close> is unchecked and the \<open>switch\<close> has a \<open>default\<close> branch.
  A field that is \<open>undefined\<close> or \<open>null\<close> is \<open>None\<close>: the source treats both alike
  everywhere (\<open>?.\<close>, \<open>??\<close>, \<open>!x\<close>, \<open>===\<close> against a string).
  A string is a list of code units below 256.
  \<open>NextResponse.json\<close> builds the reply, a status and a JSON body, through the
  \<open>Response\<close> constructor, which throws for a status that cannot carry a body.
\<close>

subsection \<open>Data\<close>

record GeminiRequest =
  action :: "string option"
  content :: "string option"
  tone :: "string option"
  prompt :: "string option"
  question :: "string option"
  notesContext :: "string option"

text \<open>What a \<open>throw\<close> or a rejected promise carries: an \<open>Error\<close> with its message, or another value.\<close>

datatype thrown = ErrorObj string | NonError

text \<open>The provider's reply, as the source casts it (lines 102-106).\<close>

datatype part = Part (part_text: "string option")

datatype parts_holder = Content (parts: "part list option")

datatype candidate = Candidate (candidate_content: "parts_holder option")

datatype provider_data = Data (candidates: "candidate list option")

text \<open>
  A \<open>Response\<close> of \<open>fetch\<close>: its status, and what \<open>await response.text()\<close> and
  \<open>await response.json()\<close> give (either may reject).
\<close>

record response =
  status :: nat
  text_result :: "thrown + string"
  json_result :: "thrown + provider_data"

datatype fetch_outcome = Rejected thrown | Responded response

text \<open>JSON values, for the body the handler sends; a number is \<open>m * 10 ^ e\<close>.\<close>

datatype json = JStr string | JNum int int | JArr "json list" | JObj "(string \<times> json) list"

text \<open>One outbound call: the arguments of \<open>fetch\<close> (lines 70-84).\<close>

record outbound =
  url :: string
  http_method :: string
  headers :: "(string \<times> string) list"
  body :: json

text \<open>The process configuration and the network the handler runs against. The reply of the
  network may depend on how many calls came before and on the call itself. The last field
  is the runtime's wording of the error the \<open>Response\<close> constructor throws for a status it
  refuses.\<close>

record env =
  GEMINI_API_KEY :: "string option"
  GEMINI_MODEL :: "string option"
  fetch :: "nat \<Rightarrow> outbound \<Rightarrow> fetch_outcome"
  status_refusal :: "nat \<Rightarrow> string"

text \<open>What the handler answers: the JSON body and the status of \<open>NextResponse.json\<close>.\<close>

datatype reply_body =
  ErrorBody string
  | TextBody string
  | TagsBody string "string list"

record next_response =
  reply :: reply_body
  reply_status :: nat

subsection \<open>Strings\<close>

text \<open>\<open>String.prototype.trim\<close> removes WhiteSpace and LineTerminator code units from both
  ends; below 256 these are TAB, LF, VT, FF, CR, SP and NBSP.\<close>

definition is_space :: "char \<Rightarrow> bool" where
  "is_space c = (of_char c \<in> {9, 10, 11, 12, 13, 32, 160 :: nat})"

definition trim :: "string \<Rightarrow> string" where
  "trim s = rev (dropWhile is_space (rev (dropWhile is_space s)))"

text \<open>Truthiness of a value of type \<open>string | undefined\<close>: the empty string is falsy.\<close>

definition truthy :: "string option \<Rightarrow> bool" where
  "truthy v = (case v of None \<Rightarrow> False | Some s \<Rightarrow> s \<noteq> [])"

text \<open>\<open>v ?? d\<close> on a value of type \<open>string | undefined\<close>.\<close>

definition nullish_or :: "string option \<Rightarrow> string \<Rightarrow> string" where
  "nullish_or v d = (case v of None \<Rightarrow> d | Some s \<Rightarrow> s)"

text \<open>\<open>${v}\<close> in a template literal, on a value of type \<open>string | undefined\<close>.\<close>

definition interpolate :: "string option \<Rightarrow> string" where
  "interpolate v = (case v of None \<Rightarrow> ''undefined'' | Some s \<Rightarrow> s)"

subsection \<open>buildPrompt (lines 12-30)\<close>

definition buildPrompt :: "GeminiRequest \<Rightarrow> string" where
  "buildPrompt payload =
    (let content = nullish_or (map_option trim (content payload)) [];
         tone = nullish_or (tone payload) ''professional''
     in if action payload = Some ''summarize'' then
          ''Summarize this note in 3 concise bullet points. No extra commentary:'' @ [CHR 0x0A, CHR 0x0A] @ content
        else if action payload = Some ''improve'' then
          ''Rewrite this note to improve clarity and structure. Use a '' @ tone @
          '' tone. Return ONLY a single rewritten version (no headings, no bullet points, no multiple options). Keep it concise (max 2 short paragraphs) and preserve the original meaning:''
          @ [CHR 0x0A, CHR 0x0A] @ content
        else if action payload = Some ''tags'' then
          ''Suggest 5 short tags for this note. Respond as a comma-separated list without hashtags:'' @ [CHR 0x0A, CHR 0x0A] @ content
        else if action payload = Some ''generate'' then
          ''Write a concise draft note based on the following topic. Return ONLY the draft (no headings, no options):''
          @ [CHR 0x0A, CHR 0x0A] @ nullish_or (prompt payload) []
        else if action payload = Some ''ask'' then
          ''You are an assistant with access to the user's notes. Use the notes to answer the question.'' @ [CHR 0x0A] @
          ''If there are relevant notes, list them with their titles and a short reason. If not, say you could not find a relevant note.''
          @ [CHR 0x0A, CHR 0x0A] @ ''Notes:'' @ [CHR 0x0A] @ nullish_or (notesContext payload) []
          @ [CHR 0x0A, CHR 0x0A] @ ''Question: '' @ nullish_or (question payload) []
        else content)"

subsection \<open>The candidate list and the outbound call (lines 64-84)\<close>

definition preferredModel :: "env \<Rightarrow> string" where
  "preferredModel e = nullish_or (GEMINI_MODEL e) ''gemini-1.5-flash-latest''"

definition fallbackModels :: "env \<Rightarrow> string list" where
  "fallbackModels e =
    (if truthy (GEMINI_MODEL e) then [preferredModel e]
     else [preferredModel e, ''gemini-1.5-pro'', ''gemini-1.0-pro''])"

definition requestModel :: "string option \<Rightarrow> string \<Rightarrow> string \<Rightarrow> outbound" where
  "requestModel apiKey prompt_text model =
    \<lparr> url = ''https://generativelanguage.googleapis.com/v1/models/'' @ model @
              '':generateContent?key='' @ interpolate apiKey,
      http_method = ''POST'',
      headers = [(''Content-Type'', ''application/json'')],
      body = JObj
        [(''contents'',
            JArr [JObj [(''role'', JStr ''user''),
                        (''parts'', JArr [JObj [(''text'', JStr prompt_text)]])]]),
         (''generationConfig'',
            JObj [(''temperature'', JNum 6 (- 1)),
                  (''topP'', JNum 9 (- 1)),
                  (''maxOutputTokens'', JNum 1024 0)])] \<rparr>"

subsection \<open>The fallback loop (lines 86-92)\<close>

text \<open>\<open>response.ok\<close>: the status is in the range 200 to 299.\<close>

definition ok :: "response \<Rightarrow> bool" where
  "ok r = (200 \<le> status r \<and> status r \<le> 299)"

text \<open>
  The \<open>while\<close> loop, from the state it is entered with: the last response, \<open>modelIndex\<close>,
  and the calls issued so far. A call that rejects throws out of the loop.
\<close>

function fallback_loop ::
  "(nat \<Rightarrow> outbound \<Rightarrow> fetch_outcome) \<Rightarrow> (string \<Rightarrow> outbound) \<Rightarrow> string list \<Rightarrow>
   response \<Rightarrow> nat \<Rightarrow> outbound list \<Rightarrow> (thrown + response) \<times> outbound list" where
  "fallback_loop net req models resp modelIndex calls =
    (if \<not> ok resp \<and> status resp = 404 \<and> int modelIndex < int (length models) - 1 then
       (let call = req (models ! (modelIndex + 1)) in
        case net (length calls) call of
          Rejected e \<Rightarrow> (Inl e, calls @ [call])
        | Responded r \<Rightarrow> fallback_loop net req models r (modelIndex + 1) (calls @ [call]))
     else (Inr resp, calls))"
  by pat_completeness auto
termination
  by (relation "measure (\<lambda>(net, req, models, resp, modelIndex, calls). length models - modelIndex)") auto

text \<open>Lines 86-92: the first call against \<open>fallbackModels[0]\<close>, then the loop.\<close>

definition dispatch ::
  "(nat \<Rightarrow> outbound \<Rightarrow> fetch_outcome) \<Rightarrow> (string \<Rightarrow> outbound) \<Rightarrow> string list \<Rightarrow>
   (thrown + response) \<times> outbound list" where
  "dispatch net req models =
    (let call = req (models ! 0) in
     case net 0 call of
       Rejected e \<Rightarrow> (Inl e, [call])
     | Responded r \<Rightarrow> fallback_loop net req models r 0 [call])"

subsection \<open>The post-processor (lines 102-126)\<close>

text \<open>\<open>xs?.[0]\<close> on an array that may be absent.\<close>

definition first_of :: "'a list option \<Rightarrow> 'a option" where
  "first_of xs = (case xs of None \<Rightarrow> None | Some [] \<Rightarrow> None | Some (x # _) \<Rightarrow> Some x)"

text \<open>\<open>data.candidates?.[0]?.content?.parts?.[0]?.text?.trim() ?? ""\<close>\<close>

definition extract_text :: "provider_data \<Rightarrow> string" where
  "extract_text data =
    nullish_or
      (map_option trim
        (Option.bind
          (first_of (Option.bind
            (Option.bind (first_of (candidates data)) candidate_content) parts))
          part_text))
      []"

text \<open>
  \<open>s.split(/[...]+/)\<close> for a character class \<open>sep\<close>: the pieces are the stretches between
  maximal runs of separators, a leading and a trailing empty piece included; a string
  without separator is its own single piece.
\<close>

function split_runs :: "(char \<Rightarrow> bool) \<Rightarrow> string \<Rightarrow> string list" where
  "split_runs sep s =
    (let piece = takeWhile (\<lambda>c. \<not> sep c) s;
         rest = dropWhile (\<lambda>c. \<not> sep c) s
     in if rest = [] then [piece] else piece # split_runs sep (dropWhile sep rest))"
  by pat_completeness auto
termination
proof (relation "measure (\<lambda>(sep, s). length s)", simp)
  fix sep :: "char \<Rightarrow> bool" and s :: string and x xa
  assume xa: "xa = dropWhile (\<lambda>c. \<not> sep c) s" and ne: "xa \<noteq> []"
  from ne obtain c cs where c: "xa = c # cs" by (cases xa) auto
  have "sep c" using c xa hd_dropWhile [of "\<lambda>c. \<not> sep c" s] by auto
  then have "length (dropWhile sep xa) \<le> length cs"
    using c by (simp add: length_dropWhile_le)
  moreover have "length xa \<le> length s" using xa by (simp add: length_dropWhile_le)
  ultimately show "((sep, dropWhile sep xa), (sep, s)) \<in> measure (\<lambda>(sep, s). length s)"
    using c by simp
qed

text \<open>
  The class of the literal at line 120, \<^verbatim>\<open>/[,\\n]+/\<close>: in a regular-expression literal
  a doubled backslash is an escaped backslash, so the class holds the comma, the
  backslash and the letter n.
\<close>

definition is_sep :: "char \<Rightarrow> bool" where
  "is_sep c = (c = CHR '','' \<or> c = CHR 0x5C \<or> c = CHR ''n'')"

text \<open>\<open>tag.replace(/^#+/, "")\<close>: the leading run of hash characters goes.\<close>

definition strip_hashes :: "string \<Rightarrow> string" where
  "strip_hashes s = dropWhile (\<lambda>c. c = CHR 0x23) s"

text \<open>Lines 119-122: split, then trim and strip each piece, then drop the empty ones.\<close>

definition parse_tags :: "string \<Rightarrow> string list" where
  "parse_tags text_in =
    filter (\<lambda>t. t \<noteq> []) (map (\<lambda>tag. strip_hashes (trim tag)) (split_runs is_sep text_in))"

subsection \<open>The handler (lines 32-132)\<close>

text \<open>
  The reply of \<open>NextResponse.json\<close> at a status the \<open>Response\<close> constructor accepts. The
  literal statuses of the source (400 and 500, and the default 200) are accepted.
\<close>

definition json_reply :: "reply_body \<Rightarrow> nat \<Rightarrow> next_response" where
  "json_reply b s = \<lparr> reply = b, reply_status = s \<rparr>"

text \<open>
  The \<open>Response\<close> constructor (Fetch standard) throws a \<open>RangeError\<close> for a status outside
  200 to 599, and a \<open>TypeError\<close> for a body together with a null-body status (101, 103, 204,
  205 or 304). \<open>NextResponse.json\<close> always passes a body.
\<close>

definition null_body_status :: "nat \<Rightarrow> bool" where
  "null_body_status s = (s \<in> {101, 103, 204, 205, 304})"

definition carries_body :: "nat \<Rightarrow> bool" where
  "carries_body s = (200 \<le> s \<and> s \<le> 599 \<and> \<not> null_body_status s)"

text \<open>\<open>NextResponse.json(body, { status })\<close> at a status that is not a literal of the source.\<close>

definition NextResponse_json :: "(nat \<Rightarrow> string) \<Rightarrow> reply_body \<Rightarrow> nat \<Rightarrow> thrown + next_response" where
  "NextResponse_json refusal b s =
    (if carries_body s then Inr (json_reply b s) else Inl (ErrorObj (refusal s)))"

text \<open>
  Lines 94-126: what the handler answers once the loop has left it a response. On a
  response that is not ok the body is read first (line 95), then the reply is built with
  the provider's status (lines 96-99); either step may throw.
\<close>

definition respond ::
  "(nat \<Rightarrow> string) \<Rightarrow> GeminiRequest \<Rightarrow> response \<Rightarrow> thrown + next_response" where
  "respond refusal payload resp =
    (if \<not> ok resp then
       (case text_result resp of
          Inl e \<Rightarrow> Inl e
        | Inr t \<Rightarrow>
            NextResponse_json refusal
              (ErrorBody (if t \<noteq> [] then t else ''Gemini request failed.'')) (status resp))
     else
       (case json_result resp of
          Inl e \<Rightarrow> Inl e
        | Inr data \<Rightarrow>
            (let t = extract_text data in
             if t = [] then Inr (json_reply (ErrorBody ''No content returned.'') 500)
             else if action payload = Some ''tags'' then
               Inr (json_reply (TagsBody t (parse_tags t)) 200)
             else Inr (json_reply (TextBody t) 200))))"

text \<open>
  Lines 37-62: the guards that return before any call is made; \<open>None\<close> when the
  handler goes on to the network.
\<close>

definition early_return :: "env \<Rightarrow> GeminiRequest \<Rightarrow> next_response option" where
  "early_return e payload =
    (if \<not> truthy (GEMINI_API_KEY e) then
       Some (json_reply (ErrorBody ''Missing GEMINI_API_KEY.'') 500)
     else if action payload = Some ''ask'' \<and> \<not> truthy (map_option trim (question payload)) then
       Some (json_reply (ErrorBody ''Missing question.'') 400)
     else if action payload = Some ''ask'' \<and> \<not> truthy (map_option trim (notesContext payload)) then
       Some (json_reply (ErrorBody ''Missing notes context.'') 400)
     else if buildPrompt payload = [] then
       Some (json_reply (ErrorBody ''Empty prompt.'') 400)
     else None)"

text \<open>
  The body of the \<open>try\<close> block: the result, or what was thrown, and the outbound calls
  issued. The argument is what \<open>await request.json()\<close> gives.
\<close>

definition POST_try ::
  "env \<Rightarrow> thrown + GeminiRequest \<Rightarrow> (thrown + next_response) \<times> outbound list" where
  "POST_try e request_json =
    (case request_json of
       Inl err \<Rightarrow> (Inl err, [])
     | Inr payload \<Rightarrow>
        (case early_return e payload of
           Some r \<Rightarrow> (Inr r, [])
         | None \<Rightarrow>
            (case dispatch (fetch e)
                    (requestModel (GEMINI_API_KEY e) (buildPrompt payload))
                    (fallbackModels e) of
               (Inl err, calls) \<Rightarrow> (Inl err, calls)
             | (Inr resp, calls) \<Rightarrow> (respond (status_refusal e) payload resp, calls))))"

text \<open>The handler with its \<open>catch\<close> (lines 127-131): always a reply, and the calls issued.\<close>

definition catch_message :: "thrown \<Rightarrow> string" where
  "catch_message err = (case err of ErrorObj m \<Rightarrow> m | NonError \<Rightarrow> ''Gemini request failed.'')"

definition POST :: "env \<Rightarrow> thrown + GeminiRequest \<Rightarrow> next_response \<times> outbound list" where
  "POST e request_json =
    (case POST_try e request_json of
       (Inl err, calls) \<Rightarrow> (json_reply (ErrorBody (catch_message err)) 500, calls)
     | (Inr r, calls) \<Rightarrow> (r, calls))"

text \<open>The equations of the two loops are unfolded by hand in the proofs.\<close>

declare fallback_loop.simps [simp del]

declare split_runs.simps [simp del]

subsection \<open>Notions of the specification\<close>

text \<open>The five recognised actions.\<close>

definition recognized :: "string option \<Rightarrow> bool" where
  "recognized a =
    (a \<in> set [Some ''summarize'', Some ''improve'', Some ''tags'', Some ''generate'', Some ''ask''])"

text \<open>A field that is missing, empty or whitespace-only.\<close>

definition blank :: "string option \<Rightarrow> bool" where
  "blank v = (case v of None \<Rightarrow> True | Some s \<Rightarrow> list_all is_space s)"

text \<open>
  A provider reply without usable text in the words of the specification: the candidates
  array absent or empty, or the content, the parts (absent or empty) or the text of the
  first candidate absent.
\<close>

definition lacks_text :: "provider_data \<Rightarrow> bool" where
  "lacks_text d =
    (case candidates d of
       None \<Rightarrow> True
     | Some [] \<Rightarrow> True
     | Some (c # _) \<Rightarrow>
        (case candidate_content c of
           None \<Rightarrow> True
         | Some h \<Rightarrow>
            (case parts h of
               None \<Rightarrow> True
             | Some [] \<Rightarrow> True
             | Some (p # _) \<Rightarrow> part_text p = None)))"

text \<open>
  The tag list in the words of the specification: the text split on runs of commas and
  newline characters, each piece trimmed and stripped of its leading hashes, the empty
  pieces dropped.
\<close>

definition is_comma_or_newline :: "char \<Rightarrow> bool" where
  "is_comma_or_newline c = (c = CHR '','' \<or> c = CHR 0x0A)"

definition tags_as_specified :: "string \<Rightarrow> string list" where
  "tags_as_specified text_in =
    filter (\<lambda>t. t \<noteq> [])
      (map (\<lambda>tag. strip_hashes (trim tag)) (split_runs is_comma_or_newline text_in))"

subsection \<open>Concrete requests, replies and networks\<close>

definition request_of :: "string option \<Rightarrow> string option \<Rightarrow> GeminiRequest" where
  "request_of a c =
    \<lparr> action = a, content = c, tone = None, prompt = None, question = None,
      notesContext = None \<rparr>"

definition ask_request :: "string option \<Rightarrow> string option \<Rightarrow> GeminiRequest" where
  "ask_request q n =
    \<lparr> action = Some ''ask'', content = None, tone = None, prompt = None, question = q,
      notesContext = n \<rparr>"

text \<open>A reply with a plain-text body, which does not parse as JSON.\<close>

definition plain_response :: "nat \<Rightarrow> string \<Rightarrow> response" where
  "plain_response s t =
    \<lparr> status = s, text_result = Inr t,
      json_result = Inl (ErrorObj ''Unexpected token'') \<rparr>"

text \<open>
  A reply with status 200 whose body parses to the given data. The handler reads the body
  of a 2xx reply through \<open>json()\<close> only, so its raw text is left as a placeholder.
\<close>

definition json_response :: "provider_data \<Rightarrow> response" where
  "json_response d = \<lparr> status = 200, text_result = Inr ''(json)'', json_result = Inr d \<rparr>"

definition data_with_text :: "string \<Rightarrow> provider_data" where
  "data_with_text t = Data (Some [Candidate (Some (Content (Some [Part (Some t)])))])"

definition net_always :: "response \<Rightarrow> nat \<Rightarrow> outbound \<Rightarrow> fetch_outcome" where
  "net_always r n call = Responded r"

definition net_404_404_ok :: "nat \<Rightarrow> outbound \<Rightarrow> fetch_outcome" where
  "net_404_404_ok n call =
    (if n < 2 then Responded (plain_response 404 ''model not found'')
     else Responded (json_response (data_with_text ''  hello  '')))"

definition net_down :: "nat \<Rightarrow> outbound \<Rightarrow> fetch_outcome" where
  "net_down n call = Rejected (ErrorObj ''fetch failed'')"

definition refusal_text :: "nat \<Rightarrow> string" where
  "refusal_text s = ''Invalid response status code''"

definition response_unreadable :: "nat \<Rightarrow> response" where
  "response_unreadable s =
    \<lparr> status = s, text_result = Inl (ErrorObj ''terminated''),
      json_result = Inl (ErrorObj ''terminated'') \<rparr>"

definition env_default :: "(nat \<Rightarrow> outbound \<Rightarrow> fetch_outcome) \<Rightarrow> env" where
  "env_default net =
    \<lparr> GEMINI_API_KEY = Some ''key'', GEMINI_MODEL = None, fetch = net,
      status_refusal = refusal_text \<rparr>"

definition env_no_key :: "(nat \<Rightarrow> outbound \<Rightarrow> fetch_outcome) \<Rightarrow> env" where
  "env_no_key net =
    \<lparr> GEMINI_API_KEY = None, GEMINI_MODEL = None, fetch = net,
      status_refusal = refusal_text \<rparr>"

section \<open>Properties\<close>

subsection \<open>Strings and prompts\<close>

lemma dropWhile_all_iff: "(\<forall>c \<in> set (dropWhile P s). P c) \<longleftrightarrow> (\<forall>c \<in> set s. P c)"
proof
  assume a: "\<forall>c \<in> set (dropWhile P s). P c"
  have "dropWhile P s = []"
  proof (rule ccontr)
    assume ne: "dropWhile P s \<noteq> []"
    then have "\<not> P (hd (dropWhile P s))" by (rule hd_dropWhile)
    moreover have "hd (dropWhile P s) \<in> set (dropWhile P s)" using ne by (rule hd_in_set)
    ultimately show False using a by blast
  qed
  then show "\<forall>c \<in> set s. P c" by (simp only: dropWhile_eq_Nil_conv)
next
  assume "\<forall>c \<in> set s. P c"
  then show "\<forall>c \<in> set (dropWhile P s). P c" by (blast dest: set_dropWhileD)
qed

lemma trim_empty_iff: "trim s = [] \<longleftrightarrow> list_all is_space s"
  by (simp add: trim_def list_all_iff dropWhile_all_iff)

lemma not_truthy_trim: "\<not> truthy (map_option trim v) \<longleftrightarrow> blank v"
  by (cases v) (simp_all add: truthy_def blank_def trim_empty_iff)

lemma buildPrompt_recognized: "recognized (action p) \<Longrightarrow> buildPrompt p \<noteq> []"
  by (auto simp add: recognized_def buildPrompt_def Let_def)

lemma buildPrompt_default: "\<not> recognized (action p) \<Longrightarrow> buildPrompt p = nullish_or (map_option trim (content p)) []"
  by (auto simp add: recognized_def buildPrompt_def Let_def)

subsection \<open>The fallback loop\<close>

text \<open>
  The loop only appends to the calls issued, and stops at once on a response that is
  not a 404.
\<close>

lemma fallback_loop_prefix:
  "fallback_loop net req models resp i calls = (res, calls') \<Longrightarrow> \<exists>more. calls' = calls @ more"
proof (induction net req models resp i calls rule: fallback_loop.induct)
  case (1 net req models resp modelIndex calls)
  show ?case
  proof (cases "\<not> ok resp \<and> status resp = 404 \<and> int modelIndex < int (length models) - 1")
    case True
    show ?thesis
    proof (cases "net (length calls) (req (models ! (modelIndex + 1)))")
      case (Rejected e)
      with True "1.prems" show ?thesis
        by (auto simp add: Let_def fallback_loop.simps [of net req models resp modelIndex calls])
    next
      case (Responded r)
      with True "1.prems" have "fallback_loop net req models r (modelIndex + 1) (calls @ [req (models ! (modelIndex + 1))]) = (res, calls')"
        by (simp add: Let_def fallback_loop.simps [of net req models resp modelIndex calls])
      with "1.IH" [OF True refl Responded] show ?thesis by auto
    qed
  next
    case False
    with "1.prems" show ?thesis
      by (simp add: fallback_loop.simps [of net req models resp modelIndex calls])
  qed
qed

lemma fallback_loop_stops:
  "ok resp \<or> status resp \<noteq> 404 \<Longrightarrow> fallback_loop net req models resp i calls = (Inr resp, calls)"
  by (auto simp add: fallback_loop.simps [of net req models resp i calls])

text \<open>
  Each round of the loop moves \<open>modelIndex\<close> one candidate on, so the calls issued never
  outnumber the candidates.
\<close>

lemma fallback_loop_bound:
  "fallback_loop net req models resp i calls = (res, calls') \<Longrightarrow> i < length models \<Longrightarrow>
    length calls' + i < length calls + length models"
proof (induction net req models resp i calls rule: fallback_loop.induct)
  case (1 net req models resp modelIndex calls)
  show ?case
  proof (cases "\<not> ok resp \<and> status resp = 404 \<and> int modelIndex < int (length models) - 1")
    case True
    then have lt: "modelIndex + 1 < length models" by linarith
    show ?thesis
    proof (cases "net (length calls) (req (models ! (modelIndex + 1)))")
      case (Rejected e)
      with True "1.prems" lt show ?thesis
        by (auto simp add: Let_def fallback_loop.simps [of net req models resp modelIndex calls])
    next
      case (Responded r)
      with True "1.prems" have "fallback_loop net req models r (modelIndex + 1) (calls @ [req (models ! (modelIndex + 1))]) = (res, calls')"
        by (simp add: Let_def fallback_loop.simps [of net req models resp modelIndex calls])
      from "1.IH" [OF True refl Responded this lt] show ?thesis by simp
    qed
  next
    case False
    with "1.prems" show ?thesis
      by (simp add: fallback_loop.simps [of net req models resp modelIndex calls])
  qed
qed

lemma dispatch_bound:
  "models \<noteq> [] \<Longrightarrow> dispatch net req models = (res, calls) \<Longrightarrow> calls \<noteq> [] \<and> length calls \<le> length models"
proof -
  assume ne: "models \<noteq> []" and d: "dispatch net req models = (res, calls)"
  show ?thesis
  proof (cases "net 0 (req (models ! 0))")
    case (Rejected e)
    with d ne show ?thesis by (cases models) (auto simp add: dispatch_def Let_def)
  next
    case (Responded r)
    with d have f: "fallback_loop net req models r 0 [req (models ! 0)] = (res, calls)"
      by (simp add: dispatch_def Let_def)
    from fallback_loop_bound [OF f] ne have "length calls < 1 + length models" by simp
    moreover from fallback_loop_prefix [OF f] have "calls \<noteq> []" by auto
    ultimately show ?thesis by simp
  qed
qed

lemma fallbackModels_length: "length (fallbackModels e) = (if truthy (GEMINI_MODEL e) then 1 else 3)"
  by (simp add: fallbackModels_def)

lemma fallbackModels_first: "fallbackModels e ! 0 = preferredModel e"
  by (simp add: fallbackModels_def)

subsection \<open>The handler\<close>

text \<open>The literal statuses of the source are accepted by the \<open>Response\<close> constructor.\<close>

lemma literal_statuses_carry_body: "carries_body 200 \<and> carries_body 400 \<and> carries_body 500"
  by (simp add: carries_body_def null_body_status_def)

lemma NextResponse_json_accepts:
  "carries_body s \<Longrightarrow> NextResponse_json refusal b s = Inr (json_reply b s)"
  by (simp add: NextResponse_json_def)

lemma NextResponse_json_refuses:
  "\<not> carries_body s \<Longrightarrow> NextResponse_json refusal b s = Inl (ErrorObj (refusal s))"
  by (simp add: NextResponse_json_def)

lemma POST_calls: "snd (POST e rq) = snd (POST_try e rq)"
  by (simp add: POST_def split: prod.splits sum.splits)

lemma POST_try_early:
  "early_return e p = Some r \<Longrightarrow> POST_try e (Inr p) = (Inr r, [])"
  by (simp add: POST_try_def)

lemma POST_try_dispatch:
  "early_return e p = None \<Longrightarrow>
   POST_try e (Inr p) =
    (case dispatch (fetch e) (requestModel (GEMINI_API_KEY e) (buildPrompt p)) (fallbackModels e) of
       (Inl err, calls) \<Rightarrow> (Inl err, calls)
     | (Inr resp, calls) \<Rightarrow> (respond (status_refusal e) p resp, calls))"
  by (simp add: POST_try_def)

lemma POST_try_calls_dispatch:
  "early_return e p = None \<Longrightarrow>
   snd (POST_try e (Inr p)) =
     snd (dispatch (fetch e) (requestModel (GEMINI_API_KEY e) (buildPrompt p)) (fallbackModels e))"
  by (simp add: POST_try_dispatch split: prod.splits sum.splits)

lemma POST_try_bound: "length (snd (POST_try e rq)) \<le> length (fallbackModels e)"
proof (cases rq)
  case (Inl err)
  then show ?thesis by (simp add: POST_try_def)
next
  case (Inr payload)
  show ?thesis
  proof (cases "early_return e payload")
    case (Some r)
    with Inr show ?thesis by (simp add: POST_try_def)
  next
    case None
    obtain res calls where d: "dispatch (fetch e) (requestModel (GEMINI_API_KEY e) (buildPrompt payload)) (fallbackModels e) = (res, calls)"
      by (cases "dispatch (fetch e) (requestModel (GEMINI_API_KEY e) (buildPrompt payload)) (fallbackModels e)")
    have "fallbackModels e \<noteq> []" by (simp add: fallbackModels_def)
    from dispatch_bound [OF this d] have "length calls \<le> length (fallbackModels e)" by simp
    moreover have "snd (POST_try e rq) = calls"
      using Inr None d by (simp add: POST_try_def split: sum.splits)
    ultimately show ?thesis by simp
  qed
qed

lemma POST_try_calls_nonempty:
  "early_return e p = None \<Longrightarrow> snd (POST_try e (Inr p)) \<noteq> []"
proof -
  assume n: "early_return e p = None"
  obtain res calls where d:
    "dispatch (fetch e) (requestModel (GEMINI_API_KEY e) (buildPrompt p)) (fallbackModels e) = (res, calls)"
    by (cases "dispatch (fetch e) (requestModel (GEMINI_API_KEY e) (buildPrompt p)) (fallbackModels e)")
  have "fallbackModels e \<noteq> []" by (simp add: fallbackModels_def)
  from dispatch_bound [OF this d] have "calls \<noteq> []" by simp
  moreover have "snd (POST_try e (Inr p)) = calls"
    using n d by (simp add: POST_try_def split: sum.splits)
  ultimately show ?thesis by simp
qed

lemma POST_no_calls_early:
  assumes "POST e (Inr p) = (r, [])"
  shows "early_return e p = Some r"
proof (cases "early_return e p")
  case None
  from POST_try_calls_nonempty [OF None] assms show ?thesis
    by (simp add: POST_calls [symmetric])
next
  case (Some r')
  from POST_try_early [OF Some] assms show ?thesis by (simp add: Some POST_def)
qed

subsection \<open>The post-processor\<close>

lemma extract_text_cases:
  "extract_text d =
    (case candidates d of
       None \<Rightarrow> []
     | Some [] \<Rightarrow> []
     | Some (c # _) \<Rightarrow>
        (case candidate_content c of
           None \<Rightarrow> []
         | Some h \<Rightarrow>
            (case parts h of
               None \<Rightarrow> []
             | Some [] \<Rightarrow> []
             | Some (p # _) \<Rightarrow> (case part_text p of None \<Rightarrow> [] | Some t \<Rightarrow> trim t))))"
  by (simp add: extract_text_def first_of_def nullish_or_def split: option.split list.split)

lemma lacks_text_extract: "lacks_text d \<Longrightarrow> extract_text d = []"
  unfolding extract_text_cases lacks_text_def
  by (cases "candidates d") (auto split: option.split list.split)

text \<open>
  Two character classes that agree on the characters of a string split it alike; so the
  tag list of the source is the one of the specification on every text without the letter
  n, a backslash or a newline.
\<close>

lemma split_runs_cong:
  "\<forall>c \<in> set s. P c = Q c \<Longrightarrow> split_runs P s = split_runs Q s"
proof (induction P s rule: split_runs.induct)
  case (1 sep s)
  let ?rest = "dropWhile (\<lambda>c. \<not> sep c) s"
  have tw: "takeWhile (\<lambda>c. \<not> sep c) s = takeWhile (\<lambda>c. \<not> Q c) s"
    using "1.prems" by (intro takeWhile_cong) auto
  have dw: "?rest = dropWhile (\<lambda>c. \<not> Q c) s"
    using "1.prems" by (intro dropWhile_cong) auto
  have sub: "set ?rest \<subseteq> set s" by (auto dest: set_dropWhileD)
  have dw2: "dropWhile sep ?rest = dropWhile Q ?rest"
    using "1.prems" sub by (intro dropWhile_cong) auto
  have l: "split_runs sep s =
    (if ?rest = [] then [takeWhile (\<lambda>c. \<not> sep c) s]
     else takeWhile (\<lambda>c. \<not> sep c) s # split_runs sep (dropWhile sep ?rest))"
    by (subst split_runs.simps) (simp add: Let_def)
  have r: "split_runs Q s =
    (if ?rest = [] then [takeWhile (\<lambda>c. \<not> sep c) s]
     else takeWhile (\<lambda>c. \<not> sep c) s # split_runs Q (dropWhile sep ?rest))"
    by (subst split_runs.simps) (simp add: Let_def tw dw [symmetric] dw2 [symmetric])
  show ?case
  proof (cases "?rest = []")
    case True
    with l r show ?thesis by simp
  next
    case False
    have "\<forall>c \<in> set (dropWhile sep ?rest). sep c = Q c"
      using "1.prems" sub by (auto dest: set_dropWhileD)
    from "1.IH" [OF refl refl False this]
    have e: "split_runs sep (dropWhile sep ?rest) = split_runs Q (dropWhile sep ?rest)" .
    show ?thesis by (simp only: l r e)
  qed
qed

lemma parse_tags_as_specified:
  assumes "\<forall>c \<in> set t. c \<noteq> CHR ''n'' \<and> c \<noteq> CHR 0x5C \<and> c \<noteq> CHR 0x0A"
  shows "parse_tags t = tags_as_specified t"
proof -
  have "\<forall>c \<in> set t. is_sep c = is_comma_or_newline c"
    using assms by (auto simp add: is_sep_def is_comma_or_newline_def)
  then have "split_runs is_sep t = split_runs is_comma_or_newline t" by (rule split_runs_cong)
  then show ?thesis by (simp add: parse_tags_def tags_as_specified_def)
qed

section \<open>The claims\<close>

subsection \<open>Prompt builder\<close>

text \<open>
  Claim C4, as stated: for an action outside the five recognised values (an absent
  action included) \<open>buildPrompt\<close> returns the empty string. It does not: the
  \<open>default\<close> branch returns the content field, trimmed. For the action
  \<open>translate\<close> and the content \<open>hi\<close> the prompt is not empty.
\<close>

theorem C4_counterexample:
  "buildPrompt (request_of (Some ''translate'') (Some ''hi'')) \<noteq> []"
  by code_simp

text \<open>
  Claim C4, amended: for an action outside the five recognised values (an absent action
  included) \<open>buildPrompt\<close> returns the content field with surrounding whitespace
  trimmed, the empty string standing for an absent content; so it returns the empty
  string exactly when the content is absent, empty or whitespace-only.
\<close>

theorem C4_unrecognized_echoes_content:
  assumes "\<not> recognized (action p)"
  shows "buildPrompt p = nullish_or (map_option trim (content p)) []
    \<and> (buildPrompt p = [] \<longleftrightarrow> blank (content p))"
proof -
  have e: "buildPrompt p = nullish_or (map_option trim (content p)) []"
    using assms by (rule buildPrompt_default)
  have "nullish_or (map_option trim (content p)) [] = [] \<longleftrightarrow> blank (content p)"
    by (cases "content p") (simp_all add: nullish_or_def blank_def trim_empty_iff)
  with e show ?thesis by simp
qed

text \<open>
  Claim C4, amended, at an absent action and the content \<open>hi\<close> between two spaces.
\<close>

theorem C4_witness:
  "\<not> recognized (action (request_of None (Some '' hi '')))
   \<and> buildPrompt (request_of None (Some '' hi '')) = ''hi''
   \<and> \<not> blank (content (request_of None (Some '' hi '')))"
proof -
  have h: "\<not> recognized (action (request_of None (Some '' hi '')))" by code_simp
  have t: "nullish_or (map_option trim (content (request_of None (Some '' hi '')))) [] = ''hi''"
    by code_simp
  note r = C4_unrecognized_echoes_content [OF h]
  from r t have b: "buildPrompt (request_of None (Some '' hi '')) = ''hi''" by simp
  with r have "\<not> blank (content (request_of None (Some '' hi '')))" by auto
  with h b show ?thesis by simp
qed

text \<open>
  Claim C9: for each of the five recognised actions \<open>buildPrompt\<close> returns a non-empty
  string, whatever the other fields hold; and the handler answers with the 400
  \<open>Empty prompt.\<close> error of line 61, before any outbound call, only when the action is
  not recognised and the content is absent, empty or whitespace-only.
\<close>

theorem C9_empty_prompt_only_for_unrecognized:
  "(recognized (action p) \<longrightarrow> buildPrompt p \<noteq> [])
   \<and> (POST e (Inr q) = (json_reply (ErrorBody ''Empty prompt.'') 400, [])
        \<longrightarrow> \<not> recognized (action q) \<and> blank (content q))"
proof (intro conjI impI)
  assume "recognized (action p)"
  then show "buildPrompt p \<noteq> []" by (rule buildPrompt_recognized)
next
  assume a: "POST e (Inr q) = (json_reply (ErrorBody ''Empty prompt.'') 400, [])"
  from POST_no_calls_early [OF a]
  have er: "early_return e q = Some (json_reply (ErrorBody ''Empty prompt.'') 400)" .
  then have b: "buildPrompt q = []"
    by (simp add: early_return_def json_reply_def split: if_splits)
  then have nr: "\<not> recognized (action q)" using buildPrompt_recognized by blast
  from buildPrompt_default [OF nr] b
  have "nullish_or (map_option trim (content q)) [] = []" by simp
  then have "blank (content q)"
    by (cases "content q") (simp_all add: nullish_or_def blank_def trim_empty_iff)
  with nr show "\<not> recognized (action q)" and "blank (content q)" by simp_all
qed

text \<open>
  Claim C9, at the action \<open>tags\<close> with every other field absent, and at an absent action
  with a content of two spaces.
\<close>

theorem C9_witness:
  "recognized (action (request_of (Some ''tags'') None))
   \<and> buildPrompt (request_of (Some ''tags'') None) \<noteq> []
   \<and> POST (env_default net_down) (Inr (request_of None (Some ''  ''))) =
        (json_reply (ErrorBody ''Empty prompt.'') 400, [])
   \<and> \<not> recognized (action (request_of None (Some ''  '')))
   \<and> blank (content (request_of None (Some ''  '')))"
proof -
  have h1: "recognized (action (request_of (Some ''tags'') None))" by code_simp
  have h2: "POST (env_default net_down) (Inr (request_of None (Some ''  ''))) =
        (json_reply (ErrorBody ''Empty prompt.'') 400, [])" by code_simp
  from C9_empty_prompt_only_for_unrecognized
    [of "request_of (Some ''tags'') None" "env_default net_down" "request_of None (Some ''  '')"]
    h1 h2
  show ?thesis by simp
qed

subsection \<open>Model request dispatcher\<close>

text \<open>
  Claim C1, as stated: with no model configured, a first response of status 404 is
  followed by a second request against the second default candidate, and a first
  response of any other unsuccessful status is followed by no second request, the status
  and the provider's error body being surfaced. The last part fails in three ways. For
  an empty body line 97 answers with the fixed message \<open>Gemini request failed.\<close>, not
  with the body. For the status 304, which a reply cannot carry with a body,
  \<open>NextResponse.json\<close> throws at lines 96-99 and the \<open>catch\<close> answers 500. And when
  reading the body rejects at line 95, the \<open>catch\<close> answers 500 as well, here for a 503.
\<close>

theorem C1_counterexample:
  "text_result (plain_response 500 []) = Inr []
   \<and> fst (POST (env_default (net_always (plain_response 500 [])))
            (Inr (request_of (Some ''summarize'') (Some ''note''))))
      \<noteq> json_reply (ErrorBody []) 500
   \<and> reply_status (fst (POST (env_default (net_always (plain_response 304 [])))
            (Inr (request_of (Some ''summarize'') (Some ''note''))))) \<noteq> 304
   \<and> reply_status (fst (POST (env_default (net_always (response_unreadable 503)))
            (Inr (request_of (Some ''summarize'') (Some ''note''))))) \<noteq> 503"
  by code_simp

text \<open>
  Claim C1, amended: with no model configured (the candidate list is then the
  three-element default) and the handler past its guards, a first response of status 404
  is followed by a second request against \<open>gemini-1.5-pro\<close>; a first response of any
  other unsuccessful status is followed by no second request. Then, when the body of
  that response can be read and its status is one a reply can carry with a body (200 to
  599, other than 204, 205 and 304), that status is surfaced together with the provider's
  error body, or with the fixed message \<open>Gemini request failed.\<close> when that body is
  empty; when the body can be read and the status is not such a one, or when reading the
  body rejects, the thrown error is caught and answered with the status 500 and its
  message.
\<close>

theorem C1_fallback_on_404_only:
  assumes "\<not> truthy (GEMINI_MODEL e)"
    and "early_return e p = None"
    and "fetch e 0 (requestModel (GEMINI_API_KEY e) (buildPrompt p) (preferredModel e)) = Responded r"
  shows "fallbackModels e = [preferredModel e, ''gemini-1.5-pro'', ''gemini-1.0-pro'']
    \<and> (status r = 404 \<longrightarrow>
          take 2 (snd (POST e (Inr p))) =
            [requestModel (GEMINI_API_KEY e) (buildPrompt p) (preferredModel e),
             requestModel (GEMINI_API_KEY e) (buildPrompt p) ''gemini-1.5-pro''])
    \<and> (\<not> ok r \<and> status r \<noteq> 404 \<longrightarrow>
          snd (POST e (Inr p)) = [requestModel (GEMINI_API_KEY e) (buildPrompt p) (preferredModel e)]
          \<and> (\<forall>t. text_result r = Inr t \<and> carries_body (status r) \<longrightarrow>
                fst (POST e (Inr p)) =
                  json_reply (ErrorBody (if t \<noteq> [] then t else ''Gemini request failed.''))
                    (status r))
          \<and> (\<forall>t. text_result r = Inr t \<and> \<not> carries_body (status r) \<longrightarrow>
                fst (POST e (Inr p)) =
                  json_reply (ErrorBody (status_refusal e (status r))) 500)
          \<and> (\<forall>err. text_result r = Inl err \<longrightarrow>
                fst (POST e (Inr p)) = json_reply (ErrorBody (catch_message err)) 500))"
proof (intro conjI impI allI)
  let ?req = "requestModel (GEMINI_API_KEY e) (buildPrompt p)"
  let ?c0 = "?req (preferredModel e)"
  let ?c1 = "?req ''gemini-1.5-pro''"
  show m: "fallbackModels e = [preferredModel e, ''gemini-1.5-pro'', ''gemini-1.0-pro'']"
    using assms(1) by (simp add: fallbackModels_def)
  have d: "dispatch (fetch e) ?req (fallbackModels e) =
    fallback_loop (fetch e) ?req (fallbackModels e) r 0 [?c0]"
    using assms(3) by (simp add: dispatch_def m)
  {
    assume s: "status r = 404"
    then have nok: "\<not> ok r" by (simp add: ok_def)
    have "\<exists>more. snd (dispatch (fetch e) ?req (fallbackModels e)) = [?c0, ?c1] @ more"
    proof (cases "fetch e 1 ?c1")
      case (Rejected err)
      with s nok have "fallback_loop (fetch e) ?req (fallbackModels e) r 0 [?c0] = (Inl err, [?c0, ?c1])"
        by (subst fallback_loop.simps) (simp add: m Let_def)
      with d show ?thesis by simp
    next
      case (Responded r')
      obtain res calls where f:
        "fallback_loop (fetch e) ?req (fallbackModels e) r' 1 [?c0, ?c1] = (res, calls)"
        by (cases "fallback_loop (fetch e) ?req (fallbackModels e) r' 1 [?c0, ?c1]")
      from Responded s nok have "fallback_loop (fetch e) ?req (fallbackModels e) r 0 [?c0] =
        fallback_loop (fetch e) ?req (fallbackModels e) r' 1 [?c0, ?c1]"
        by (subst fallback_loop.simps) (simp add: m Let_def)
      with d f fallback_loop_prefix [OF f] show ?thesis by auto
    qed
    then obtain more where "snd (POST_try e (Inr p)) = [?c0, ?c1] @ more"
      using POST_try_calls_dispatch [OF assms(2)] by auto
    then show "take 2 (snd (POST e (Inr p))) = [?c0, ?c1]" by (simp add: POST_calls)
  }
  {
    assume s: "\<not> ok r \<and> status r \<noteq> 404"
    then have "fallback_loop (fetch e) ?req (fallbackModels e) r 0 [?c0] = (Inr r, [?c0])"
      by (simp add: fallback_loop_stops)
    with d assms(2) have t: "POST_try e (Inr p) = (respond (status_refusal e) p r, [?c0])"
      by (simp add: POST_try_dispatch)
    then show "snd (POST e (Inr p)) = [?c0]" by (simp add: POST_calls)
    {
      fix t assume "text_result r = Inr t \<and> carries_body (status r)"
      with s have "respond (status_refusal e) p r =
        Inr (json_reply (ErrorBody (if t \<noteq> [] then t else ''Gemini request failed.'')) (status r))"
        by (simp add: respond_def NextResponse_json_accepts)
      with t show "fst (POST e (Inr p)) =
        json_reply (ErrorBody (if t \<noteq> [] then t else ''Gemini request failed.'')) (status r)"
        by (simp add: POST_def)
    }
    {
      fix t assume "text_result r = Inr t \<and> \<not> carries_body (status r)"
      with s have "respond (status_refusal e) p r = Inl (ErrorObj (status_refusal e (status r)))"
        by (simp add: respond_def NextResponse_json_refuses)
      with t show "fst (POST e (Inr p)) =
        json_reply (ErrorBody (status_refusal e (status r))) 500"
        by (simp add: POST_def catch_message_def)
    }
    {
      fix err assume "text_result r = Inl err"
      with s have "respond (status_refusal e) p r = Inl err" by (simp add: respond_def)
      with t show "fst (POST e (Inr p)) = json_reply (ErrorBody (catch_message err)) 500"
        by (simp add: POST_def)
    }
  }
qed

text \<open>
  Claim C1, amended, at a network that answers 404 twice, and at networks that answer 500
  with the body \<open>internal error\<close>, 304 with an empty body, and 503 with a body that
  cannot be read.
\<close>

theorem C1_witness:
  "\<not> truthy (GEMINI_MODEL (env_default net_404_404_ok))
   \<and> early_return (env_default net_404_404_ok) (request_of (Some ''summarize'') (Some ''note'')) = None
   \<and> status (plain_response 404 ''model not found'') = 404
   \<and> take 2 (snd (POST (env_default net_404_404_ok)
        (Inr (request_of (Some ''summarize'') (Some ''note''))))) =
      [requestModel (Some ''key'') (buildPrompt (request_of (Some ''summarize'') (Some ''note'')))
         ''gemini-1.5-flash-latest'',
       requestModel (Some ''key'') (buildPrompt (request_of (Some ''summarize'') (Some ''note'')))
         ''gemini-1.5-pro'']
   \<and> \<not> ok (plain_response 500 ''internal error'')
   \<and> carries_body (status (plain_response 500 ''internal error''))
   \<and> POST (env_default (net_always (plain_response 500 ''internal error'')))
        (Inr (request_of (Some ''summarize'') (Some ''note''))) =
      (json_reply (ErrorBody ''internal error'') 500,
       [requestModel (Some ''key'') (buildPrompt (request_of (Some ''summarize'') (Some ''note'')))
         ''gemini-1.5-flash-latest''])
   \<and> \<not> ok (plain_response 304 [])
   \<and> \<not> carries_body (status (plain_response 304 []))
   \<and> POST (env_default (net_always (plain_response 304 [])))
        (Inr (request_of (Some ''summarize'') (Some ''note''))) =
      (json_reply (ErrorBody ''Invalid response status code'') 500,
       [requestModel (Some ''key'') (buildPrompt (request_of (Some ''summarize'') (Some ''note'')))
         ''gemini-1.5-flash-latest''])
   \<and> \<not> ok (response_unreadable 503)
   \<and> text_result (response_unreadable 503) = Inl (ErrorObj ''terminated'')
   \<and> POST (env_default (net_always (response_unreadable 503)))
        (Inr (request_of (Some ''summarize'') (Some ''note''))) =
      (json_reply (ErrorBody ''terminated'') 500,
       [requestModel (Some ''key'') (buildPrompt (request_of (Some ''summarize'') (Some ''note'')))
         ''gemini-1.5-flash-latest''])"
proof -
  let ?p = "request_of (Some ''summarize'') (Some ''note'')"
  let ?c0 = "requestModel (Some ''key'') (buildPrompt ?p) ''gemini-1.5-flash-latest''"
  let ?e1 = "env_default net_404_404_ok"
  let ?r2 = "plain_response 500 ''internal error''"
  let ?r3 = "plain_response 304 []"
  let ?r4 = "response_unreadable 503"
  have a1: "\<not> truthy (GEMINI_MODEL ?e1)" by code_simp
  have a2: "early_return ?e1 ?p = None" by code_simp
  have a3: "fetch ?e1 0 (requestModel (GEMINI_API_KEY ?e1) (buildPrompt ?p) (preferredModel ?e1))
    = Responded (plain_response 404 ''model not found'')"
    by (simp add: env_default_def net_404_404_ok_def)
  have a4: "status (plain_response 404 ''model not found'') = 404" by (simp add: plain_response_def)
  have k1: "GEMINI_API_KEY ?e1 = Some ''key''" by (simp add: env_default_def)
  have m1: "preferredModel ?e1 = ''gemini-1.5-flash-latest''" by code_simp
  from C1_fallback_on_404_only [OF a1 a2 a3] a4 k1 m1
  have r1: "take 2 (snd (POST ?e1 (Inr ?p))) = [?c0, requestModel (Some ''key'') (buildPrompt ?p) ''gemini-1.5-pro'']"
    by simp
  have b1: "\<not> truthy (GEMINI_MODEL (env_default (net_always r)))" for r by code_simp
  have b2: "early_return (env_default (net_always r)) ?p = None" for r
    by (simp add: early_return_def env_default_def truthy_def request_of_def
        buildPrompt_def Let_def)
  have b3: "fetch (env_default (net_always r)) 0
      (requestModel (GEMINI_API_KEY (env_default (net_always r))) (buildPrompt ?p)
        (preferredModel (env_default (net_always r)))) = Responded r" for r
    by (simp add: env_default_def net_always_def)
  have k: "GEMINI_API_KEY (env_default (net_always r)) = Some ''key''" for r
    by (simp add: env_default_def)
  have m: "preferredModel (env_default (net_always r)) = ''gemini-1.5-flash-latest''" for r
    by (simp add: env_default_def preferredModel_def nullish_or_def)
  have f: "status_refusal (env_default (net_always r)) s = ''Invalid response status code''" for r s
    by (simp add: env_default_def refusal_text_def)
  have c2: "\<not> ok ?r2" by code_simp
  have c2s: "status ?r2 = 500" by (simp add: plain_response_def)
  have c2t: "text_result ?r2 = Inr ''internal error''" by (simp add: plain_response_def)
  have c2c: "carries_body (status ?r2)" by code_simp
  from C1_fallback_on_404_only [OF b1 b2 b3, of ?r2] c2 c2s c2t c2c k m
  have r2: "POST (env_default (net_always ?r2)) (Inr ?p) =
      (json_reply (ErrorBody ''internal error'') 500, [?c0])"
    by (simp add: prod_eq_iff)
  have c3: "\<not> ok ?r3" by code_simp
  have c3s: "status ?r3 = 304" by (simp add: plain_response_def)
  have c3t: "text_result ?r3 = Inr []" by (simp add: plain_response_def)
  have c3c: "\<not> carries_body (status ?r3)" by code_simp
  from C1_fallback_on_404_only [OF b1 b2 b3, of ?r3] c3 c3s c3t c3c k m f
  have r3: "POST (env_default (net_always ?r3)) (Inr ?p) =
      (json_reply (ErrorBody ''Invalid response status code'') 500, [?c0])"
    by (simp add: prod_eq_iff)
  have c4: "\<not> ok ?r4" by code_simp
  have c4s: "status ?r4 = 503" by (simp add: response_unreadable_def)
  have c4t: "text_result ?r4 = Inl (ErrorObj ''terminated'')" by (simp add: response_unreadable_def)
  have cm: "catch_message (ErrorObj ''terminated'') = ''terminated''" by (simp add: catch_message_def)
  from C1_fallback_on_404_only [OF b1 b2 b3, of ?r4] c4 c4s c4t cm k m
  have r4: "POST (env_default (net_always ?r4)) (Inr ?p) =
      (json_reply (ErrorBody ''terminated'') 500, [?c0])"
    by (simp add: prod_eq_iff)
  from a1 a2 a4 r1 c2 c2c r2 c3 c3c r3 c4 c4t r4 show ?thesis by blast
qed

text \<open>
  Claim C2, as stated: the handler issues at most two outbound calls. It does not: with
  the default candidates and two 404 responses in a row the loop of lines 89-92 issues a
  third call.
\<close>

theorem C2_counterexample:
  "\<not> length (snd (POST (env_default net_404_404_ok)
        (Inr (request_of (Some ''summarize'') (Some ''note''))))) \<le> 2"
  by code_simp

text \<open>
  Claim C2, amended: the handler issues at most as many outbound calls as there are
  candidates, that is at most one when a model is configured and at most three otherwise:
  one initial call, followed by up to two retries, and never a fourth call.
\<close>

theorem C2_calls_bounded_by_candidates:
  "length (snd (POST e rq)) \<le> length (fallbackModels e)
   \<and> length (fallbackModels e) = (if truthy (GEMINI_MODEL e) then 1 else 3)"
  using POST_try_bound [of e rq] by (simp add: POST_calls fallbackModels_length)

text \<open>
  Claim C2, amended, at the default candidates and a network that answers 404 twice:
  three calls, three candidates.
\<close>

theorem C2_witness:
  "length (snd (POST (env_default net_404_404_ok)
      (Inr (request_of (Some ''summarize'') (Some ''note''))))) = 3
   \<and> length (fallbackModels (env_default net_404_404_ok)) = 3"
proof -
  have "length (snd (POST (env_default net_404_404_ok)
      (Inr (request_of (Some ''summarize'') (Some ''note''))))) = 3" by code_simp
  moreover have "\<not> truthy (GEMINI_MODEL (env_default net_404_404_ok))" by code_simp
  ultimately show ?thesis
    using C2_calls_bounded_by_candidates [of "env_default net_404_404_ok"
      "Inr (request_of (Some ''summarize'') (Some ''note''))"] by simp
qed

subsection \<open>Validation and thrown errors\<close>

text \<open>
  Claim C5, as stated: an \<open>ask\<close> request whose question or notes context is missing or
  whitespace-only is answered with a 400 and no outbound call. Without the API key the
  guard of line 37 comes first and the answer is a 500.
\<close>

theorem C5_counterexample:
  "reply_status (fst (POST (env_no_key net_down) (Inr (ask_request (Some ''where?'') (Some ''''))))) \<noteq> 400"
  by code_simp

text \<open>
  Claim C5, amended: an \<open>ask\<close> request whose question or notes context is missing or
  whitespace-only never leads to an outbound call; with the API key configured it is
  answered with a 400 (\<open>Missing question.\<close>, else \<open>Missing notes context.\<close>), without
  the key with the 500 \<open>Missing GEMINI_API_KEY.\<close>
\<close>

theorem C5_ask_validation:
  assumes "action p = Some ''ask''"
    and "blank (question p) \<or> blank (notesContext p)"
  shows "snd (POST e (Inr p)) = []
    \<and> fst (POST e (Inr p)) =
        (if \<not> truthy (GEMINI_API_KEY e) then json_reply (ErrorBody ''Missing GEMINI_API_KEY.'') 500
         else if blank (question p) then json_reply (ErrorBody ''Missing question.'') 400
         else json_reply (ErrorBody ''Missing notes context.'') 400)"
proof -
  let ?r = "if \<not> truthy (GEMINI_API_KEY e) then json_reply (ErrorBody ''Missing GEMINI_API_KEY.'') 500
         else if blank (question p) then json_reply (ErrorBody ''Missing question.'') 400
         else json_reply (ErrorBody ''Missing notes context.'') 400"
  have "early_return e p = Some ?r"
    using assms by (auto simp add: early_return_def not_truthy_trim)
  from POST_try_early [OF this] show ?thesis by (simp add: POST_def)
qed

text \<open>
  Claim C5, amended, at a non-empty question with an empty notes context, the key being
  configured.
\<close>

theorem C5_witness:
  "action (ask_request (Some ''where?'') (Some '''')) = Some ''ask''
   \<and> blank (notesContext (ask_request (Some ''where?'') (Some '''')))
   \<and> POST (env_default net_down) (Inr (ask_request (Some ''where?'') (Some ''''))) =
        (json_reply (ErrorBody ''Missing notes context.'') 400, [])"
proof -
  have h1: "action (ask_request (Some ''where?'') (Some '''')) = Some ''ask''" by code_simp
  have h2: "blank (notesContext (ask_request (Some ''where?'') (Some '''')))" by code_simp
  have h3: "truthy (GEMINI_API_KEY (env_default net_down))" by code_simp
  have h4: "\<not> blank (question (ask_request (Some ''where?'') (Some '''')))" by code_simp
  from C5_ask_validation [OF h1 disjI2 [OF h2], of "env_default net_down"] h1 h2 h3 h4
  show ?thesis by (simp add: prod_eq_iff)
qed

text \<open>
  Claim C10: whatever is thrown inside the \<open>try\<close> block is answered with a status 500
  and a JSON body holding an error string (the message of the error); in particular
  when \<open>request.json()\<close> rejects, and when the first \<open>fetch\<close> rejects.
\<close>

theorem C10_thrown_errors_become_500:
  "(POST_try e rq = (Inl err, calls) \<longrightarrow>
      POST e rq = (json_reply (ErrorBody (catch_message err)) 500, calls))
   \<and> POST e (Inl err) = (json_reply (ErrorBody (catch_message err)) 500, [])
   \<and> (early_return e p = None
        \<and> fetch e 0 (requestModel (GEMINI_API_KEY e) (buildPrompt p) (preferredModel e)) = Rejected err
      \<longrightarrow> POST e (Inr p) =
            (json_reply (ErrorBody (catch_message err)) 500,
             [requestModel (GEMINI_API_KEY e) (buildPrompt p) (preferredModel e)]))"
proof (intro conjI impI)
  assume "POST_try e rq = (Inl err, calls)"
  then show "POST e rq = (json_reply (ErrorBody (catch_message err)) 500, calls)"
    by (simp add: POST_def)
next
  show "POST e (Inl err) = (json_reply (ErrorBody (catch_message err)) 500, [])"
    by (simp add: POST_def POST_try_def)
next
  assume a: "early_return e p = None
    \<and> fetch e 0 (requestModel (GEMINI_API_KEY e) (buildPrompt p) (preferredModel e)) = Rejected err"
  then have "dispatch (fetch e) (requestModel (GEMINI_API_KEY e) (buildPrompt p)) (fallbackModels e)
    = (Inl err, [requestModel (GEMINI_API_KEY e) (buildPrompt p) (preferredModel e)])"
    by (simp add: dispatch_def fallbackModels_first)
  with a have "POST_try e (Inr p) =
    (Inl err, [requestModel (GEMINI_API_KEY e) (buildPrompt p) (preferredModel e)])"
    by (simp add: POST_try_dispatch)
  then show "POST e (Inr p) =
            (json_reply (ErrorBody (catch_message err)) 500,
             [requestModel (GEMINI_API_KEY e) (buildPrompt p) (preferredModel e)])"
    by (simp add: POST_def)
qed

text \<open>
  Claim C10, at a request body that is not JSON and at a network that is down.
\<close>

theorem C10_witness:
  "POST_try (env_default net_404_404_ok) (Inl (ErrorObj ''Unexpected end of JSON input''))
      = (Inl (ErrorObj ''Unexpected end of JSON input''), [])
   \<and> POST (env_default net_404_404_ok) (Inl (ErrorObj ''Unexpected end of JSON input''))
      = (json_reply (ErrorBody ''Unexpected end of JSON input'') 500, [])
   \<and> early_return (env_default net_down) (request_of (Some ''summarize'') (Some ''note'')) = None
   \<and> fetch (env_default net_down) 0
        (requestModel (Some ''key'') (buildPrompt (request_of (Some ''summarize'') (Some ''note'')))
          ''gemini-1.5-flash-latest'') = Rejected (ErrorObj ''fetch failed'')
   \<and> POST (env_default net_down) (Inr (request_of (Some ''summarize'') (Some ''note''))) =
        (json_reply (ErrorBody ''fetch failed'') 500,
         [requestModel (Some ''key'') (buildPrompt (request_of (Some ''summarize'') (Some ''note'')))
          ''gemini-1.5-flash-latest''])"
proof -
  let ?p = "request_of (Some ''summarize'') (Some ''note'')"
  have h1: "POST_try (env_default net_404_404_ok) (Inl (ErrorObj ''Unexpected end of JSON input''))
      = (Inl (ErrorObj ''Unexpected end of JSON input''), [])" by (simp add: POST_try_def)
  have h2: "early_return (env_default net_down) ?p = None" by code_simp
  have k: "GEMINI_API_KEY (env_default net_down) = Some ''key''" by (simp add: env_default_def)
  have m: "preferredModel (env_default net_down) = ''gemini-1.5-flash-latest''" by code_simp
  have h3: "fetch (env_default net_down) 0
        (requestModel (Some ''key'') (buildPrompt ?p) ''gemini-1.5-flash-latest'')
        = Rejected (ErrorObj ''fetch failed'')"
    by (simp add: env_default_def net_down_def)
  have c1: "catch_message (ErrorObj ''Unexpected end of JSON input'') = ''Unexpected end of JSON input''"
    by (simp add: catch_message_def)
  have c2: "catch_message (ErrorObj ''fetch failed'') = ''fetch failed''"
    by (simp add: catch_message_def)
  note a = C10_thrown_errors_become_500
    [of "env_default net_404_404_ok" "Inl (ErrorObj ''Unexpected end of JSON input'')"
        "ErrorObj ''Unexpected end of JSON input''" "[]" ?p]
  note b = C10_thrown_errors_become_500
    [of "env_default net_down" "Inl (ErrorObj ''fetch failed'')" "ErrorObj ''fetch failed''" "[]" ?p]
  from a h1 c1 have r1: "POST (env_default net_404_404_ok) (Inl (ErrorObj ''Unexpected end of JSON input''))
      = (json_reply (ErrorBody ''Unexpected end of JSON input'') 500, [])" by simp
  from b h2 h3 k m c2 have r2: "POST (env_default net_down) (Inr ?p) =
        (json_reply (ErrorBody ''fetch failed'') 500,
         [requestModel (Some ''key'') (buildPrompt ?p) ''gemini-1.5-flash-latest''])" by simp
  from h1 r1 h2 h3 r2 show ?thesis by blast
qed

subsection \<open>Response post-processor\<close>

text \<open>
  Claim C6: when the response the dispatcher ends with has a 2xx status and a JSON body
  without usable text (the candidates absent or empty, or the content, parts or text of
  the first candidate absent), nothing is thrown and the handler answers with the status
  500 and the message \<open>No content returned.\<close>
\<close>

theorem C6_empty_result_is_500:
  assumes "early_return e p = None"
    and "dispatch (fetch e) (requestModel (GEMINI_API_KEY e) (buildPrompt p)) (fallbackModels e)
          = (Inr resp, calls)"
    and "ok resp"
    and "json_result resp = Inr d"
    and "lacks_text d"
  shows "POST_try e (Inr p) = (Inr (json_reply (ErrorBody ''No content returned.'') 500), calls)
    \<and> POST e (Inr p) = (json_reply (ErrorBody ''No content returned.'') 500, calls)"
proof -
  have "respond (status_refusal e) p resp =
      Inr (json_reply (ErrorBody ''No content returned.'') 500)"
    using assms(3,4) lacks_text_extract [OF assms(5)] by (simp add: respond_def)
  with assms(1,2) have "POST_try e (Inr p) =
    (Inr (json_reply (ErrorBody ''No content returned.'') 500), calls)"
    by (simp add: POST_try_dispatch)
  then show ?thesis by (simp add: POST_def)
qed

text \<open>
  Claim C6, at a provider that answers 200 with an empty candidates array.
\<close>

theorem C6_witness:
  "early_return (env_default (net_always (json_response (Data (Some [])))))
      (request_of (Some ''summarize'') (Some ''note'')) = None
   \<and> ok (json_response (Data (Some [])))
   \<and> json_result (json_response (Data (Some []))) = Inr (Data (Some []))
   \<and> lacks_text (Data (Some []))
   \<and> POST (env_default (net_always (json_response (Data (Some [])))))
        (Inr (request_of (Some ''summarize'') (Some ''note''))) =
      (json_reply (ErrorBody ''No content returned.'') 500,
       [requestModel (Some ''key'') (buildPrompt (request_of (Some ''summarize'') (Some ''note'')))
          ''gemini-1.5-flash-latest''])"
proof -
  let ?e = "env_default (net_always (json_response (Data (Some []))))"
  let ?p = "request_of (Some ''summarize'') (Some ''note'')"
  let ?call = "requestModel (Some ''key'') (buildPrompt ?p) ''gemini-1.5-flash-latest''"
  have h1: "early_return ?e ?p = None" by code_simp
  have h2: "dispatch (fetch ?e) (requestModel (GEMINI_API_KEY ?e) (buildPrompt ?p)) (fallbackModels ?e)
          = (Inr (json_response (Data (Some []))), [?call])" by code_simp
  have h3: "ok (json_response (Data (Some [])))" by code_simp
  have h4: "json_result (json_response (Data (Some []))) = Inr (Data (Some []))"
    by (simp add: json_response_def)
  have h5: "lacks_text (Data (Some []))" by code_simp
  from C6_empty_result_is_500 [OF h1 h2 h3 h4 h5] h1 h3 h4 h5 show ?thesis by simp
qed

text \<open>
  Claim C7: when the provider's JSON reply has a first candidate whose content has a
  first part with a text, the extracted text is that text with surrounding whitespace
  trimmed.
\<close>

theorem C7_extract_first_text_trimmed:
  assumes "candidates d = Some (c # cs)"
    and "candidate_content c = Some h"
    and "parts h = Some (p # ps)"
    and "part_text p = Some t"
  shows "extract_text d = trim t"
  using assms by (simp add: extract_text_def first_of_def nullish_or_def)

text \<open>
  Claim C7, at the reply of the specification: the text \<open>hello\<close> between two pairs of
  spaces is extracted as \<open>hello\<close>.
\<close>

theorem C7_hello_witness:
  "candidates (data_with_text ''  hello  '') =
      Some (Candidate (Some (Content (Some [Part (Some ''  hello  '')]))) # [])
   \<and> extract_text (data_with_text ''  hello  '') = ''hello''"
proof -
  have c: "candidates (data_with_text ''  hello  '') =
      Some (Candidate (Some (Content (Some [Part (Some ''  hello  '')]))) # [])"
    by (simp add: data_with_text_def)
  have t: "trim ''  hello  '' = ''hello''" by code_simp
  from C7_extract_first_text_trimmed [OF c, of "Content (Some [Part (Some ''  hello  '')])"
      "Part (Some ''  hello  '')" "[]" "''  hello  ''"] t c
  show ?thesis by simp
qed

text \<open>
  Claim C3: the tag list is the text split on runs of commas and newlines, each piece
  trimmed and stripped of its leading hashes, the empty pieces dropped. The source
  splits on the comma, the backslash and the letter n instead, and not on the newline:
  the text \<open>sun, moon\<close> gives the tags \<open>su\<close> and \<open>moo\<close>, and two words on two lines
  give a single tag.
\<close>

theorem C3_splits_on_letter_n:
  "parse_tags ''sun, moon'' = [''su'', ''moo'']
   \<and> tags_as_specified ''sun, moon'' = [''sun'', ''moon'']
   \<and> parse_tags (''red'' @ [CHR 0x0A] @ ''blue'') = [''red'' @ [CHR 0x0A] @ ''blue'']
   \<and> tags_as_specified (''red'' @ [CHR 0x0A] @ ''blue'') = [''red'', ''blue'']
   \<and> fst (POST (env_default (net_always (json_response (data_with_text ''sun, moon''))))
            (Inr (request_of (Some ''tags'') (Some ''note''))))
      = json_reply (TagsBody ''sun, moon'' [''su'', ''moo'']) 200"
  by code_simp

text \<open>
  Claim C8: for the extracted text \<open>#focus, Research,, #dream\<close> the parsed tag list is
  \<open>focus\<close>, \<open>Research\<close>, \<open>dream\<close>: the order is kept, the empty segment is dropped, the
  leading hashes are stripped and the case is left as it is.
\<close>

theorem C8_tags_example:
  "parse_tags ''#focus, Research,, #dream'' = [''focus'', ''Research'', ''dream'']"
  by code_simp

end
